theory Spec2Isabelle
  imports Main "HOL-Library.Sublist"
begin

section \<open>Exceptions, remote objects and the world\<close>

text \<open>
  The module \<^verbatim>\<open>sharepoint_api.py\<close> is glue around an SDK and a remote service. Every
  \<^verbatim>\<open>execute_query()\<close> of the source is one round trip; the model records it in a trace
  and lets the environment decide whether it raises. An exception of the source is a
  value \<open>Inl e\<close>; the world is passed explicitly and survives an exception, since the
  log and the requests already sent are not undone by a raise.

  \<^verbatim>\<open>SharepointError\<close> is imported from the module \<^verbatim>\<open>.errors\<close>. Every handler of the
  source names exactly this class, so the model keeps it apart from all other classes.
\<close>

datatype exn =
    SharepointError string
  | Exception string
  | AttributeError string
  | FileNotFoundError string
  | IsADirectoryError string
  | ValueError string
  | KeyError string
  | TypeError string
  | OtherError string

fun is_SharepointError :: "exn \<Rightarrow> bool" where
  "is_SharepointError (SharepointError m) = True"
| "is_SharepointError e = False"

fun exn_str :: "exn \<Rightarrow> string" where
  "exn_str (SharepointError m) = m"
| "exn_str (Exception m) = m"
| "exn_str (AttributeError m) = m"
| "exn_str (FileNotFoundError m) = m"
| "exn_str (IsADirectoryError m) = m"
| "exn_str (ValueError m) = m"
| "exn_str (KeyError m) = m"
| "exn_str (TypeError m) = m"
| "exn_str (OtherError m) = m"

type_synonym bytes = string

text \<open>JSON values, as \<^verbatim>\<open>json.load\<close> returns them for the secrets file.\<close>

datatype json =
    JStr string
  | JObj "(string \<times> json) list"
  | JOther

record folder =
  folder_id :: nat
  folder_name :: string
  folder_files :: "(string \<times> bytes) list"

record library =
  list_id :: nat
  title :: string
  description :: string
  root_folders :: "folder list"

datatype sp_file = UploadedFile nat string | FileAtPath string

text \<open>One constructor for each kind of round trip the source makes.\<close>

datatype request =
    GetWeb string
  | GetSite string
  | GetFileByPath string string
  | FilterLists string string
  | FilterFolders string nat string
  | AddFolder string nat string
  | AddList string string string
  | UploadFile string nat string bytes
  | UploadSession string string string nat

datatype fs_entry = RegularFile bytes | Directory nat

datatype log_entry = LogError string | LogInfo string | LogDebug string

text \<open>
  The world: the remote libraries of each site (by the site's complete URL, in the
  order the service lists them, duplicates possible), the next fresh object id, the
  environment's decision which round trip raises what, the trace of round trips, the
  logger's output, the local file system and the JSON decoder.
\<close>

record world =
  sites :: "string \<Rightarrow> library list"
  next_id :: nat
  faults :: "request \<Rightarrow> exn option"
  requests :: "request list"
  logged :: "log_entry list"
  fs :: "string \<Rightarrow> fs_entry option"
  json_load :: "bytes \<Rightarrow> exn + json"

definition execute_query :: "request \<Rightarrow> world \<Rightarrow> exn option \<times> world" where
  "execute_query r w = (faults w r, w\<lparr>requests := requests w @ [r]\<rparr>)"

definition log_to :: "log_entry \<Rightarrow> world \<Rightarrow> world" where
  "log_to m w = w\<lparr>logged := logged w @ [m]\<rparr>"

section \<open>SharepointClientAccess\<close>

record client_context =
  ctx_url :: string
  ctx_cred :: "json \<times> json"

datatype web = Web string

record session =
  site :: string
  server_url :: string
  complete_url :: string
  ctx :: client_context
  web :: web

fun web_url :: "web \<Rightarrow> string" where
  "web_url (Web u) = u"

text \<open>
  \<^verbatim>\<open>get_sharepoint_ctx\<close>: the fetch of the web root is outside any handler; the fetch
  of the site object is inside \<^verbatim>\<open>try ... except SharepointError\<close>.
\<close>

definition get_sharepoint_ctx ::
  "string \<Rightarrow> json \<Rightarrow> json \<Rightarrow> world \<Rightarrow> (exn + client_context \<times> web) \<times> world" where
  "get_sharepoint_ctx url client_id client_secret w =
     (let c = \<lparr>ctx_url = url, ctx_cred = (client_id, client_secret)\<rparr> in
      case execute_query (GetWeb url) w of
        (Some e, w1) \<Rightarrow> (Inl e, w1)
      | (None, w1) \<Rightarrow>
          (case execute_query (GetSite url) w1 of
             (Some e, w2) \<Rightarrow>
               if is_SharepointError e
               then (Inr (c, Web url), log_to (LogError ''Unable to execute web queries'') w2)
               else (Inl e, w2)
           | (None, w2) \<Rightarrow> (Inr (c, Web url), w2)))"

text \<open>Python's \<^verbatim>\<open>d[k]\<close> on a decoded JSON value.\<close>

fun subscript :: "json \<Rightarrow> string \<Rightarrow> exn + json" where
  "subscript (JObj kvs) k =
     (case map_of kvs k of None \<Rightarrow> Inl (KeyError k) | Some v \<Rightarrow> Inr v)"
| "subscript (JStr s) k = Inl (TypeError ''string indices must be integers'')"
| "subscript JOther k = Inl (TypeError ''object is not subscriptable'')"

text \<open>Lines 28 to 31: open the secrets file, decode it, read the two entries of the site.\<close>

definition read_secrets :: "world \<Rightarrow> string \<Rightarrow> string \<Rightarrow> exn + json \<times> json" where
  "read_secrets w root_cred_path st =
     (case fs w root_cred_path of
        None \<Rightarrow> Inl (FileNotFoundError root_cred_path)
      | Some (Directory n) \<Rightarrow> Inl (IsADirectoryError root_cred_path)
      | Some (RegularFile b) \<Rightarrow>
          (case json_load w b of
             Inl e \<Rightarrow> Inl e
           | Inr data \<Rightarrow>
               (case subscript data ''sites'' of
                  Inl e \<Rightarrow> Inl e
                | Inr ss \<Rightarrow>
                    (case subscript ss st of
                       Inl e \<Rightarrow> Inl e
                     | Inr entry \<Rightarrow>
                         (case subscript entry ''username'' of
                            Inl e \<Rightarrow> Inl e
                          | Inr u \<Rightarrow>
                              (case subscript entry ''password'' of
                                 Inl e \<Rightarrow> Inl e
                               | Inr p \<Rightarrow> Inr (u, p)))))))"

definition missing_secrets_message :: string where
  "missing_secrets_message =
     ''Please provide client secrets information as a secrets.json or using the inputs ''
     @ replicate 29 (CHR '' '') @ ''client_secret and client_id''"

definition connect :: "string \<Rightarrow> string \<Rightarrow> json \<Rightarrow> json \<Rightarrow> world \<Rightarrow> (exn + session) \<times> world" where
  "connect st srv client_id client_secret w =
     (let url = srv @ ''/sites/'' @ st in
      case get_sharepoint_ctx url client_id client_secret w of
        (Inl e, w1) \<Rightarrow> (Inl e, w1)
      | (Inr (c, wb), w1) \<Rightarrow>
          (Inr \<lparr>site = st, server_url = srv, complete_url = url, ctx = c, web = wb\<rparr>, w1))"

text \<open>
  \<^verbatim>\<open>SharepointClientAccess.__init__\<close> (\<^verbatim>\<open>SharepointAPI.__init__\<close> only calls it).
  \<^verbatim>\<open>connect\<close> is its last line, the assignment of \<^verbatim>\<open>self.ctx, self.web\<close>.
\<close>

definition SharepointClientAccess_init ::
  "string \<Rightarrow> string \<Rightarrow> string \<Rightarrow> string \<Rightarrow> string \<Rightarrow> world \<Rightarrow> (exn + session) \<times> world" where
  "SharepointClientAccess_init st srv root_cred_path client_id client_secret w =
     (if root_cred_path \<noteq> [] then
        (case read_secrets w root_cred_path st of
           Inl e \<Rightarrow> (Inl e, w)
         | Inr (u, p) \<Rightarrow> connect st srv u p w)
      else if client_id = [] \<or> client_secret = [] then
        (Inl (Exception missing_secrets_message), w)
      else connect st srv (JStr client_id) (JStr client_secret) w)"

section \<open>Locating and creating libraries and folders\<close>

text \<open>
  The source sends the filter as text, \<^verbatim>\<open>f"Title eq '{name}'"\<close>. The service is not part
  of the repository; it is modelled as selecting, in order, the objects whose own title
  (or name) renders to the same filter text, which is equality of the two strings.
\<close>

definition title_filter :: "string \<Rightarrow> string" where
  "title_filter name = ''Title eq '' @ [CHR 0x27] @ name @ [CHR 0x27]"

definition name_filter :: "string \<Rightarrow> string" where
  "name_filter name = ''Name eq '' @ [CHR 0x27] @ name @ [CHR 0x27]"

definition lists_matching :: "string \<Rightarrow> library list \<Rightarrow> library list" where
  "lists_matching flt libs = filter (\<lambda>l. title_filter (title l) = flt) libs"

definition folders_matching :: "string \<Rightarrow> folder list \<Rightarrow> folder list" where
  "folders_matching flt fds = filter (\<lambda>f. name_filter (folder_name f) = flt) fds"

text \<open>\<^verbatim>\<open>xs[0] if len(xs) == 1 else None\<close>\<close>

fun single :: "'a list \<Rightarrow> 'a option" where
  "single [x] = Some x"
| "single xs = None"

definition get_document_library_from_name ::
  "session \<Rightarrow> string \<Rightarrow> world \<Rightarrow> (exn + library option) \<times> world" where
  "get_document_library_from_name s document_library_name w =
     (let u = web_url (web s); flt = title_filter document_library_name in
      case execute_query (FilterLists u flt) w of
        (Some e, w1) \<Rightarrow> (Inl e, w1)
      | (None, w1) \<Rightarrow> (Inr (single (lists_matching flt (sites w1 u))), w1))"

definition none_has_no_attribute :: "string \<Rightarrow> exn" where
  "none_has_no_attribute a =
     AttributeError ([CHR 0x27] @ ''NoneType'' @ [CHR 0x27] @ '' object has no attribute ''
                     @ [CHR 0x27] @ a @ [CHR 0x27])"

text \<open>
  \<^verbatim>\<open>find_folder\<close> reads \<^verbatim>\<open>.root_folder\<close> of whatever the lookup returned; on
  \<^verbatim>\<open>None\<close> Python raises \<^verbatim>\<open>AttributeError\<close>.
\<close>

definition find_folder ::
  "session \<Rightarrow> string \<Rightarrow> string \<Rightarrow> world \<Rightarrow> (exn + folder option) \<times> world" where
  "find_folder s document_library_name fname w =
     (case get_document_library_from_name s document_library_name w of
        (Inl e, w1) \<Rightarrow> (Inl e, w1)
      | (Inr None, w1) \<Rightarrow> (Inl (none_has_no_attribute ''root_folder''), w1)
      | (Inr (Some lib), w1) \<Rightarrow>
          (let flt = name_filter fname in
           case execute_query (FilterFolders (web_url (web s)) (list_id lib) flt) w1 of
             (Some e, w2) \<Rightarrow> (Inl e, w2)
           | (None, w2) \<Rightarrow> (Inr (single (folders_matching flt (root_folders lib))), w2)))"

text \<open>The service's side of \<^verbatim>\<open>folders.add\<close>: the new folder joins the library's root.\<close>

definition add_folder_to :: "nat \<Rightarrow> folder \<Rightarrow> library list \<Rightarrow> library list" where
  "add_folder_to lid f libs =
     map (\<lambda>l. if list_id l = lid then l\<lparr>root_folders := root_folders l @ [f]\<rparr> else l) libs"

definition create_folder ::
  "session \<Rightarrow> string \<Rightarrow> string \<Rightarrow> world \<Rightarrow> (exn + folder) \<times> world" where
  "create_folder s document_library_name fname w =
     (case find_folder s document_library_name fname w of
        (Inl e, w1) \<Rightarrow> (Inl e, w1)
      | (Inr (Some f), w1) \<Rightarrow> (Inr f, w1)
      | (Inr None, w1) \<Rightarrow>
          (case get_document_library_from_name s document_library_name w1 of
             (Inl e, w2) \<Rightarrow> (Inl e, w2)
           | (Inr None, w2) \<Rightarrow> (Inl (none_has_no_attribute ''root_folder''), w2)
           | (Inr (Some lib), w2) \<Rightarrow>
               (let u = web_url (web s) in
                case execute_query (AddFolder u (list_id lib) fname) w2 of
                  (Some e, w3) \<Rightarrow> (Inl e, w3)
                | (None, w3) \<Rightarrow>
                    (let f = \<lparr>folder_id = next_id w3, folder_name = fname, folder_files = []\<rparr> in
                     (Inr f, w3\<lparr>sites := (sites w3)(u := add_folder_to (list_id lib) f (sites w3 u)),
                                next_id := Suc (next_id w3)\<rparr>)))))"

definition create_document_library ::
  "session \<Rightarrow> string \<Rightarrow> string \<Rightarrow> world \<Rightarrow> (exn + library) \<times> world" where
  "create_document_library s document_library_name descr w =
     (case get_document_library_from_name s document_library_name w of
        (Inl e, w1) \<Rightarrow> (Inl e, w1)
      | (Inr (Some element), w1) \<Rightarrow> (Inr element, w1)
      | (Inr None, w1) \<Rightarrow>
          (let u = web_url (web s) in
           case execute_query (AddList u document_library_name descr) w1 of
             (Some e, w2) \<Rightarrow> (Inl e, w2)
           | (None, w2) \<Rightarrow>
               (let element = \<lparr>list_id = next_id w2, title = document_library_name,
                                description = descr, root_folders = []\<rparr> in
                (Inr element, w2\<lparr>sites := (sites w2)(u := sites w2 u @ [element]),
                                 next_id := Suc (next_id w2)\<rparr>))))"

section \<open>Transfers\<close>

text \<open>
  Python's \<^verbatim>\<open>str.split(sep)\<close>: the occurrences of \<open>sep\<close> are found from the left and do
  not overlap; an empty separator raises \<^verbatim>\<open>ValueError\<close>. \<open>cur\<close> is the piece being read.
\<close>

function split_go :: "string \<Rightarrow> string \<Rightarrow> string \<Rightarrow> string list" where
  "split_go sep cur [] = [cur]"
| "split_go sep cur (c # cs) =
     (if sep \<noteq> [] \<and> prefix sep (c # cs)
      then cur # split_go sep [] (drop (length sep) (c # cs))
      else split_go sep (cur @ [c]) cs)"
  by pat_completeness auto
termination
  by (relation "measure (\<lambda>(sep, cur, s). length s)") auto

definition py_split :: "string \<Rightarrow> string \<Rightarrow> exn + string list" where
  "py_split s sep = (if sep = [] then Inl (ValueError ''empty separator'') else Inr (split_go sep [] s))"

text \<open>
  Python's \<^verbatim>\<open>sep.join(pieces)\<close>, and what the language reference says of the list that
  \<^verbatim>\<open>s.split(sep)\<close> returns: joined by \<open>sep\<close> the pieces give \<open>s\<close> back, every piece but
  the last ends where the first occurrence of \<open>sep\<close> after its start begins, and no
  \<open>sep\<close> is left in the last piece.
\<close>

fun join :: "string \<Rightarrow> string list \<Rightarrow> string" where
  "join sep [] = []"
| "join sep [x] = x"
| "join sep (x # y # ys) = x @ sep @ join sep (y # ys)"

definition split_of :: "string \<Rightarrow> string \<Rightarrow> string list \<Rightarrow> bool" where
  "split_of sep s pieces \<longleftrightarrow>
     pieces \<noteq> [] \<and> join sep pieces = s \<and>
     (\<forall>q \<in> set (butlast pieces). \<not> sublist sep (butlast (q @ sep))) \<and>
     \<not> sublist sep (last pieces)"

definition get_file :: "session \<Rightarrow> string \<Rightarrow> world \<Rightarrow> (exn + sp_file) \<times> world" where
  "get_file s file_url w =
     (case py_split file_url (server_url s) of
        Inl e \<Rightarrow> (Inl e, w)
      | Inr pieces \<Rightarrow>
          (let p = last pieces in
           case execute_query (GetFileByPath (web_url (web s)) p) w of
             (Some e, w1) \<Rightarrow> (Inl e, w1)
           | (None, w1) \<Rightarrow> (Inr (FileAtPath p), w1)))"

text \<open>\<^verbatim>\<open>os.path.exists\<close>, \<^verbatim>\<open>os.path.basename\<close>, \<^verbatim>\<open>open(p, "rb").read()\<close>, \<^verbatim>\<open>os.path.getsize\<close>.\<close>

definition path_exists :: "world \<Rightarrow> string \<Rightarrow> bool" where
  "path_exists w p = (fs w p \<noteq> None)"

definition basename :: "string \<Rightarrow> string" where
  "basename p = rev (takeWhile (\<lambda>c. c \<noteq> CHR ''/'') (rev p))"

definition read_bytes :: "world \<Rightarrow> string \<Rightarrow> exn + bytes" where
  "read_bytes w p =
     (case fs w p of
        None \<Rightarrow> Inl (FileNotFoundError p)
      | Some (Directory n) \<Rightarrow> Inl (IsADirectoryError p)
      | Some (RegularFile b) \<Rightarrow> Inr b)"

definition getsize :: "world \<Rightarrow> string \<Rightarrow> exn + nat" where
  "getsize w p =
     (case fs w p of
        None \<Rightarrow> Inl (FileNotFoundError p)
      | Some (Directory n) \<Rightarrow> Inr n
      | Some (RegularFile b) \<Rightarrow> Inr (length b))"

definition need_content_message :: string where
  "need_content_message = ''--- Need filename/ file_content when passing bytes to be uploaded ---''"

text \<open>The service's side of the single-call upload: the file joins the folder.\<close>

definition add_file_to :: "nat \<Rightarrow> string \<times> bytes \<Rightarrow> library list \<Rightarrow> library list" where
  "add_file_to fid nb libs =
     map (\<lambda>l. l\<lparr>root_folders :=
                  map (\<lambda>f. if folder_id f = fid then f\<lparr>folder_files := folder_files f @ [nb]\<rparr> else f)
                      (root_folders l)\<rparr>) libs"

text \<open>Lines 197 to 201, the part of the \<^verbatim>\<open>try\<close> block after the content is known.\<close>

definition send_file ::
  "session \<Rightarrow> string \<Rightarrow> string \<Rightarrow> string \<Rightarrow> bytes \<Rightarrow> world \<Rightarrow> (exn + sp_file) \<times> world" where
  "send_file s document_library_name root_folder fname content w =
     (case create_folder s document_library_name root_folder w of
        (Inl e, w1) \<Rightarrow> (Inl e, w1)
      | (Inr target_folder, w1) \<Rightarrow>
          (let u = web_url (web s) in
           case execute_query (UploadFile u (folder_id target_folder) fname content) w1 of
             (Some e, w2) \<Rightarrow> (Inl e, w2)
           | (None, w2) \<Rightarrow>
               (Inr (UploadedFile (folder_id target_folder) fname),
                w2\<lparr>sites := (sites w2)(u := add_file_to (folder_id target_folder) (fname, content) (sites w2 u))\<rparr>)))"

text \<open>The \<^verbatim>\<open>try\<close> block of \<^verbatim>\<open>upload_file\<close>.\<close>

definition upload_file_try ::
  "session \<Rightarrow> string \<Rightarrow> string \<Rightarrow> string \<Rightarrow> bytes option \<Rightarrow> string \<Rightarrow> world
     \<Rightarrow> (exn + sp_file) \<times> world" where
  "upload_file_try s document_library_name root_folder file_path file_content fname w =
     (if path_exists w file_path then
        (let fname' = (if fname = [] then basename file_path else fname) in
         case read_bytes w file_path of
           Inl e \<Rightarrow> (Inl e, w)
         | Inr b \<Rightarrow> send_file s document_library_name root_folder fname' b w)
      else
        (case file_content of
           None \<Rightarrow> (Inl (SharepointError need_content_message), w)
         | Some b \<Rightarrow>
             if b = [] then (Inl (SharepointError need_content_message), w)
             else send_file s document_library_name root_folder fname b w))"

text \<open>\<^verbatim>\<open>upload_file\<close>: the block above under \<^verbatim>\<open>except SharepointError\<close>.\<close>

definition upload_file ::
  "session \<Rightarrow> string \<Rightarrow> string \<Rightarrow> string \<Rightarrow> bytes option \<Rightarrow> string \<Rightarrow> world
     \<Rightarrow> (exn + sp_file option) \<times> world" where
  "upload_file s document_library_name root_folder file_path file_content fname w =
     (case upload_file_try s document_library_name root_folder file_path file_content fname w of
        (Inl e, w1) \<Rightarrow>
          if is_SharepointError e
          then (Inr None, log_to (LogError (''Unable to upload file due to error: '' @ exn_str e)) w1)
          else (Inl e, w1)
      | (Inr target_file, w1) \<Rightarrow> (Inr (Some target_file), w1))"

text \<open>
  \<^verbatim>\<open>upload_large_file\<close>: the size is read before the \<^verbatim>\<open>try\<close>. The chunked session is
  the SDK's; it is one round trip here, and the name in the success message stands for
  the SDK's \<^verbatim>\<open>resource_url\<close>.
\<close>

definition upload_large_file ::
  "session \<Rightarrow> string \<Rightarrow> string \<Rightarrow> string \<Rightarrow> world \<Rightarrow> (exn + bool) \<times> world" where
  "upload_large_file s document_libary_name root_folder file_path w =
     (let size_chunk = 1000000 in
      case getsize w file_path of
        Inl e \<Rightarrow> (Inl e, w)
      | Inr file_size \<Rightarrow>
          (let relative_url = document_libary_name @ ''/'' @ root_folder in
           case execute_query (UploadSession (ctx_url (ctx s)) relative_url file_path size_chunk) w of
             (Some e, w1) \<Rightarrow>
               if is_SharepointError e
               then (Inr False, log_to (LogError ('' --- Error while uploading: '' @ exn_str e @ '' ---'')) w1)
               else (Inl e, w1)
           | (None, w1) \<Rightarrow>
               (Inr True,
                log_to (LogInfo (''File '' @ relative_url @ ''/'' @ basename file_path
                                  @ '' has been uploaded successfully'')) w1)))"

section \<open>Building a session from a URL\<close>

text \<open>
  The constant \<^verbatim>\<open>SHAREPOINT_URL_PATTERN\<close> and Django's settings are not in the
  repository. The settings are a record; compiling the pattern and matching a URL is
  the parameter \<open>re_match\<close>, which gives the two named groups of a match, \<open>None\<close> when
  the URL does not match, or the exception that compiling or matching raised.
\<close>

record settings =
  SHAREPOINT_SITE :: string
  SHAREPOINT_SERVER_URL :: string
  SHAREPOINT_CLIENT_ID :: string
  SHAREPOINT_CLIENT_SECRET :: string

definition standard_site_message :: "exn \<Rightarrow> string" where
  "standard_site_message e =
     ''The current location does not contain a site name using the standard site :'' @ exn_str e"

text \<open>The last statement of \<^verbatim>\<open>from_url\<close>, reached when the \<^verbatim>\<open>try\<close> block did not return.\<close>

definition standard_session :: "settings \<Rightarrow> world \<Rightarrow> (exn + session) \<times> world" where
  "standard_session cfg w =
     SharepointClientAccess_init (SHAREPOINT_SITE cfg) (SHAREPOINT_SERVER_URL cfg) []
       (SHAREPOINT_CLIENT_ID cfg) (SHAREPOINT_CLIENT_SECRET cfg) w"

definition from_url ::
  "settings \<Rightarrow> (string \<Rightarrow> exn + (string \<times> string) option) \<Rightarrow> string \<Rightarrow> world
     \<Rightarrow> (exn + session) \<times> world" where
  "from_url cfg re_match url w =
     (case re_match url of
        Inl e \<Rightarrow>
          if is_SharepointError e
          then standard_session cfg (log_to (LogDebug (standard_site_message e)) w)
          else (Inl e, w)
      | Inr None \<Rightarrow> standard_session cfg w
      | Inr (Some (site_name, srv)) \<Rightarrow>
          (case SharepointClientAccess_init site_name srv []
                  (SHAREPOINT_CLIENT_ID cfg) (SHAREPOINT_CLIENT_SECRET cfg) w of
             (Inl e, w1) \<Rightarrow>
               if is_SharepointError e
               then standard_session cfg (log_to (LogDebug (standard_site_message e)) w1)
               else (Inl e, w1)
           | (Inr api, w1) \<Rightarrow> (Inr api, w1)))"

section \<open>Concrete worlds\<close>

definition no_faults :: "request \<Rightarrow> exn option" where
  "no_faults r = None"

definition no_files :: "string \<Rightarrow> fs_entry option" where
  "no_files p = None"

definition no_json :: "bytes \<Rightarrow> exn + json" where
  "no_json b = Inl (ValueError ''not JSON'')"

definition no_libraries :: "string \<Rightarrow> library list" where
  "no_libraries u = []"

definition empty_world :: world where
  "empty_world = \<lparr>sites = no_libraries, next_id = 0, faults = no_faults, requests = [],
                   logged = [], fs = no_files, json_load = no_json\<rparr>"

definition demo_url :: string where
  "demo_url = ''https://contoso.example/sites/Engineering''"

definition demo_api :: session where
  "demo_api = \<lparr>site = ''Engineering'', server_url = ''https://contoso.example'',
                complete_url = demo_url,
                ctx = \<lparr>ctx_url = demo_url, ctx_cred = (JStr ''id'', JStr ''secret'')\<rparr>,
                web = Web demo_url\<rparr>"

definition web_down :: "request \<Rightarrow> exn option" where
  "web_down r = (if r = GetWeb demo_url then Some (OtherError ''401 Unauthorized'') else None)"

definition site_down :: "request \<Rightarrow> exn option" where
  "site_down r = (if r = GetSite demo_url then Some (SharepointError ''403 Forbidden'') else None)"

definition site_reset :: "request \<Rightarrow> exn option" where
  "site_reset r = (if r = GetSite demo_url then Some (OtherError ''connection reset'') else None)"

text \<open>
  A site with one library titled Documents, whose root holds the folders reports and
  invoices, and two libraries both titled Archive.
\<close>

definition reports_a :: folder where
  "reports_a = \<lparr>folder_id = 1, folder_name = ''reports'', folder_files = []\<rparr>"

definition invoices :: folder where
  "invoices = \<lparr>folder_id = 3, folder_name = ''invoices'', folder_files = []\<rparr>"

definition documents :: library where
  "documents = \<lparr>list_id = 0, title = ''Documents'', description = [],
                 root_folders = [reports_a, invoices]\<rparr>"

definition archive_a :: library where
  "archive_a = \<lparr>list_id = 4, title = ''Archive'', description = [], root_folders = []\<rparr>"

definition archive_b :: library where
  "archive_b = \<lparr>list_id = 5, title = ''Archive'', description = [], root_folders = []\<rparr>"

definition demo_sites :: "string \<Rightarrow> library list" where
  "demo_sites u = (if u = demo_url then [documents, archive_a, archive_b] else [])"

definition demo_world :: world where
  "demo_world = \<lparr>sites = demo_sites, next_id = 6, faults = no_faults, requests = [],
                  logged = [], fs = no_files, json_load = no_json\<rparr>"

text \<open>Settings, a matcher for one URL of the Engineering site, and a service without that site.\<close>

definition demo_settings :: settings where
  "demo_settings = \<lparr>SHAREPOINT_SITE = ''Standard'',
                     SHAREPOINT_SERVER_URL = ''https://contoso.example'',
                     SHAREPOINT_CLIENT_ID = ''id'',
                     SHAREPOINT_CLIENT_SECRET = ''secret''\<rparr>"

definition demo_match :: "string \<Rightarrow> exn + (string \<times> string) option" where
  "demo_match url =
     (if url = ''https://contoso.example/sites/Engineering/Shared Documents/a.txt''
      then Inr (Some (''Engineering'', ''https://contoso.example''))
      else Inr None)"

definition engineering_gone :: "request \<Rightarrow> exn option" where
  "engineering_gone r =
     (if r = GetWeb demo_url then Some (SharepointError ''404 Not Found'') else None)"

section \<open>Helper facts\<close>

lemmas demo_defs = demo_world_def demo_sites_def demo_api_def demo_url_def documents_def
  archive_a_def archive_b_def reports_a_def invoices_def no_faults_def

lemmas lookup_defs = get_document_library_from_name_def execute_query_def lists_matching_def
  folders_matching_def title_filter_def name_filter_def Let_def

lemma is_SharepointError_iff: "is_SharepointError e \<longleftrightarrow> (\<exists>m. e = SharepointError m)"
  by (cases e) auto

lemma title_filter_eq [simp]: "title_filter a = title_filter b \<longleftrightarrow> a = b"
  by (simp add: title_filter_def)

lemma name_filter_eq [simp]: "name_filter a = name_filter b \<longleftrightarrow> a = b"
  by (simp add: name_filter_def)

lemma single_Some [simp]: "single xs = Some x \<longleftrightarrow> xs = [x]"
  by (cases xs rule: single.cases) auto

lemma single_None [simp]: "single xs = None \<longleftrightarrow> length xs \<noteq> 1"
  by (cases xs rule: single.cases) auto

lemma lookup_result:
  "faults w (FilterLists (web_url (web s)) (title_filter name)) = None \<Longrightarrow>
   get_document_library_from_name s name w
     = (Inr (single (filter (\<lambda>l. title l = name) (sites w (web_url (web s))))),
        w\<lparr>requests := requests w @ [FilterLists (web_url (web s)) (title_filter name)]\<rparr>)"
  by (simp add: get_document_library_from_name_def execute_query_def lists_matching_def Let_def)

lemma find_folder_result:
  assumes "\<forall>r. faults w r = None"
    and "filter (\<lambda>l. title l = name) (sites w (web_url (web s))) = [lib]"
  shows "find_folder s name fname w
     = (Inr (single (filter (\<lambda>f. folder_name f = fname) (root_folders lib))),
        w\<lparr>requests := requests w @ [FilterLists (web_url (web s)) (title_filter name),
                          FilterFolders (web_url (web s)) (list_id lib) (name_filter fname)]\<rparr>)"
  using assms
  by (simp add: find_folder_def lookup_result execute_query_def folders_matching_def Let_def)

lemma create_folder_found:
  assumes "\<forall>r. faults w r = None"
    and "filter (\<lambda>l. title l = name) (sites w (web_url (web s))) = [lib]"
    and "filter (\<lambda>f. folder_name f = fname) (root_folders lib) = [f]"
  shows "create_folder s name fname w
     = (Inr f,
        w\<lparr>requests := requests w @ [FilterLists (web_url (web s)) (title_filter name),
                          FilterFolders (web_url (web s)) (list_id lib) (name_filter fname)]\<rparr>)"
  using assms by (simp add: create_folder_def find_folder_result)

lemma create_folder_added:
  assumes "\<forall>r. faults w r = None"
    and "filter (\<lambda>l. title l = name) (sites w (web_url (web s))) = [lib]"
    and "length (filter (\<lambda>f. folder_name f = fname) (root_folders lib)) \<noteq> 1"
  shows "create_folder s name fname w
     = (Inr \<lparr>folder_id = next_id w, folder_name = fname, folder_files = []\<rparr>,
        w\<lparr>requests := requests w @ [FilterLists (web_url (web s)) (title_filter name),
                          FilterFolders (web_url (web s)) (list_id lib) (name_filter fname),
                          FilterLists (web_url (web s)) (title_filter name),
                          AddFolder (web_url (web s)) (list_id lib) fname],
           sites := (sites w)(web_url (web s) :=
                      add_folder_to (list_id lib)
                        \<lparr>folder_id = next_id w, folder_name = fname, folder_files = []\<rparr>
                        (sites w (web_url (web s)))),
           next_id := Suc (next_id w)\<rparr>)"
proof -
  have absent: "single (filter (\<lambda>f. folder_name f = fname) (root_folders lib)) = None"
    using assms(3) by simp
  have again: "single (filter (\<lambda>l. title l = name) (sites w (web_url (web s)))) = Some lib"
    using assms(2) by simp
  show ?thesis
    using assms(1)
    by (simp add: create_folder_def find_folder_result [OF assms(1,2)] absent lookup_result again
                  execute_query_def Let_def)
qed

lemma filter_add_folder_to:
  "filter (\<lambda>l. title l = name) (add_folder_to lid f libs)
     = add_folder_to lid f (filter (\<lambda>l. title l = name) libs)"
  by (induction libs) (auto simp: add_folder_to_def)

section \<open>Credentials and session construction\<close>

text \<open>
  C8. Without a secrets-file path, an empty \<open>client_id\<close> or an empty \<open>client_secret\<close>
  makes the constructor raise its missing-credentials exception, and the world is the
  one it started in: nothing was requested or logged, no context was built.
\<close>

theorem init_missing_credentials:
  "root_cred_path = [] \<Longrightarrow> client_id = [] \<or> client_secret = [] \<Longrightarrow>
   SharepointClientAccess_init st srv root_cred_path client_id client_secret w
     = (Inl (Exception missing_secrets_message), w)"
  by (simp add: SharepointClientAccess_init_def)

theorem init_missing_credentials_witness:
  "SharepointClientAccess_init ''Engineering'' ''https://contoso.example'' [] ''id'' [] empty_world
     = (Inl (Exception missing_secrets_message), empty_world)"
  using init_missing_credentials [of "[]" "''id''" "[]" "''Engineering''" "''https://contoso.example''" empty_world]
  by simp

text \<open>
  C2, as amended. An exception of the fetch of the web root leaves
  \<open>get_sharepoint_ctx\<close> as it is, after that one round trip and with nothing logged.
  When the web root is fetched and the fetch of the site object raises a
  \<open>SharepointError\<close>, the error is logged and the context and web root are returned;
  when it raises any other exception, that exception leaves \<open>get_sharepoint_ctx\<close> as
  well, after the two round trips and with nothing logged.
\<close>

theorem get_sharepoint_ctx_checks:
  "(faults w (GetWeb url) = Some e \<longrightarrow>
      get_sharepoint_ctx url i p w = (Inl e, w\<lparr>requests := requests w @ [GetWeb url]\<rparr>)) \<and>
   (faults w (GetWeb url) = None \<and> faults w (GetSite url) = Some e \<and> is_SharepointError e \<longrightarrow>
      get_sharepoint_ctx url i p w =
        (Inr (\<lparr>ctx_url = url, ctx_cred = (i, p)\<rparr>, Web url),
         log_to (LogError ''Unable to execute web queries'')
           (w\<lparr>requests := requests w @ [GetWeb url, GetSite url]\<rparr>))) \<and>
   (faults w (GetWeb url) = None \<and> faults w (GetSite url) = Some e \<and> \<not> is_SharepointError e \<longrightarrow>
      get_sharepoint_ctx url i p w =
        (Inl e, w\<lparr>requests := requests w @ [GetWeb url, GetSite url]\<rparr>))"
  by (simp add: get_sharepoint_ctx_def execute_query_def)

theorem get_sharepoint_ctx_checks_witness:
  "fst (get_sharepoint_ctx demo_url (JStr ''id'') (JStr ''secret'') (empty_world\<lparr>faults := web_down\<rparr>))
     = Inl (OtherError ''401 Unauthorized'') \<and>
   fst (get_sharepoint_ctx demo_url (JStr ''id'') (JStr ''secret'') (empty_world\<lparr>faults := site_down\<rparr>))
     = Inr (\<lparr>ctx_url = demo_url, ctx_cred = (JStr ''id'', JStr ''secret'')\<rparr>, Web demo_url) \<and>
   logged (snd (get_sharepoint_ctx demo_url (JStr ''id'') (JStr ''secret'') (empty_world\<lparr>faults := site_down\<rparr>)))
     = [LogError ''Unable to execute web queries''] \<and>
   fst (get_sharepoint_ctx demo_url (JStr ''id'') (JStr ''secret'') (empty_world\<lparr>faults := site_reset\<rparr>))
     = Inl (OtherError ''connection reset'') \<and>
   logged (snd (get_sharepoint_ctx demo_url (JStr ''id'') (JStr ''secret'') (empty_world\<lparr>faults := site_reset\<rparr>)))
     = []"
  using get_sharepoint_ctx_checks [of "empty_world\<lparr>faults := web_down\<rparr>" demo_url "OtherError ''401 Unauthorized''" "JStr ''id''" "JStr ''secret''"]
        get_sharepoint_ctx_checks [of "empty_world\<lparr>faults := site_down\<rparr>" demo_url "SharepointError ''403 Forbidden''" "JStr ''id''" "JStr ''secret''"]
        get_sharepoint_ctx_checks [of "empty_world\<lparr>faults := site_reset\<rparr>" demo_url "OtherError ''connection reset''" "JStr ''id''" "JStr ''secret''"]
  by (simp add: web_down_def site_down_def site_reset_def empty_world_def log_to_def)

text \<open>
  C2 as stated fails: the web root is fetched, the fetch of the site object raises an
  exception that is not a \<open>SharepointError\<close>, and \<open>get_sharepoint_ctx\<close> raises it
  without logging.
\<close>

theorem secondary_check_counterexample:
  "faults (empty_world\<lparr>faults := site_reset\<rparr>) (GetWeb demo_url) = None \<and>
   get_sharepoint_ctx demo_url (JStr ''id'') (JStr ''secret'') (empty_world\<lparr>faults := site_reset\<rparr>)
     = (Inl (OtherError ''connection reset''),
        empty_world\<lparr>faults := site_reset, requests := [GetWeb demo_url, GetSite demo_url]\<rparr>)"
  by (simp add: get_sharepoint_ctx_def execute_query_def site_reset_def empty_world_def)

section \<open>Uploads\<close>

text \<open>
  C1, as amended. When \<open>file_path\<close> names nothing in the local file system and
  \<open>file_content\<close> is \<open>None\<close> or empty, \<open>upload_file\<close> logs the error and returns
  \<open>None\<close>; no round trip is made.
\<close>

theorem upload_file_nothing_to_send:
  "\<not> path_exists w file_path \<Longrightarrow> file_content = None \<or> file_content = Some [] \<Longrightarrow>
   upload_file s document_library_name root_folder file_path file_content fname w
     = (Inr None,
        log_to (LogError (''Unable to upload file due to error: '' @ need_content_message)) w) \<and>
   requests (snd (upload_file s document_library_name root_folder file_path file_content fname w))
     = requests w"
  by (auto simp: upload_file_def upload_file_try_def log_to_def)

theorem upload_file_nothing_to_send_witness:
  "\<not> path_exists empty_world ''/tmp/missing.csv'' \<and>
   fst (upload_file demo_api ''Documents'' ''reports'' ''/tmp/missing.csv'' (Some []) ''a.csv'' empty_world)
     = Inr None \<and>
   requests (snd (upload_file demo_api ''Documents'' ''reports'' ''/tmp/missing.csv'' (Some []) ''a.csv'' empty_world))
     = []"
proof -
  have h: "\<not> path_exists empty_world ''/tmp/missing.csv''"
    by (simp add: path_exists_def empty_world_def no_files_def)
  have r: "requests empty_world = []"
    by (simp add: empty_world_def)
  show ?thesis
    using h r upload_file_nothing_to_send [OF h, of "Some []" demo_api "''Documents''" "''reports''" "''a.csv''"]
    by (simp add: log_to_def)
qed

text \<open>
  C1 as stated fails: with a path that does not exist and no content, the call returns
  \<open>None\<close> to its caller; it does not raise.
\<close>

theorem upload_file_propagates_counterexample:
  "fs empty_world ''/tmp/missing.csv'' = None \<and>
   fst (upload_file demo_api ''Documents'' ''reports'' ''/tmp/missing.csv'' None [] empty_world)
     = Inr None"
  by (simp add: upload_file_def upload_file_try_def path_exists_def empty_world_def no_files_def)

text \<open>
  C10. When \<open>file_path\<close> names nothing in the local file system, \<open>upload_large_file\<close>
  raises \<open>FileNotFoundError\<close> and leaves the world as it was: nothing is logged. It
  returns \<open>False\<close> exactly when the path exists and the upload session raised a
  \<open>SharepointError\<close>.
\<close>

theorem upload_large_file_missing_path:
  "(fs w file_path = None \<longrightarrow>
      upload_large_file s document_libary_name root_folder file_path w
        = (Inl (FileNotFoundError file_path), w)) \<and>
   (fst (upload_large_file s document_libary_name root_folder file_path w) = Inr False
      \<longleftrightarrow> fs w file_path \<noteq> None \<and>
          (\<exists>m. faults w (UploadSession (ctx_url (ctx s)) (document_libary_name @ ''/'' @ root_folder)
                           file_path 1000000) = Some (SharepointError m)))"
  by (auto simp: upload_large_file_def getsize_def execute_query_def Let_def is_SharepointError_iff
           split: option.splits fs_entry.splits)

theorem upload_large_file_missing_path_witness:
  "fs empty_world ''/tmp/missing.bin'' = None \<and>
   upload_large_file demo_api ''Documents'' ''reports'' ''/tmp/missing.bin'' empty_world
     = (Inl (FileNotFoundError ''/tmp/missing.bin''), empty_world) \<and>
   fst (upload_large_file demo_api ''Documents'' ''reports'' ''/tmp/missing.bin'' empty_world) \<noteq> Inr False"
proof -
  have h: "fs empty_world ''/tmp/missing.bin'' = None"
    by (simp add: empty_world_def no_files_def)
  show ?thesis
    using h upload_large_file_missing_path [of empty_world "''/tmp/missing.bin''" demo_api "''Documents''" "''reports''"]
    by simp
qed

section \<open>Libraries and folders\<close>



text \<open>
  C5. The claim is that \<open>find_folder\<close> returns \<open>None\<close> when the library lookup
  returns \<open>None\<close>. In the source it reads \<open>.root_folder\<close> of that \<open>None\<close>: with no
  library titled Missing, and with two titled Archive, it raises \<open>AttributeError\<close>.
\<close>

theorem find_folder_absent_library:
  "fst (get_document_library_from_name demo_api ''Missing'' demo_world) = Inr None \<and>
   fst (find_folder demo_api ''Missing'' ''reports'' demo_world)
     = Inl (none_has_no_attribute ''root_folder'') \<and>
   fst (find_folder demo_api ''Archive'' ''reports'' demo_world)
     = Inl (none_has_no_attribute ''root_folder'')"
  by (simp add: find_folder_def lookup_defs demo_defs)

lemma create_folder_twice_at_most_one:
  assumes nf: "\<forall>r. faults w r = None"
    and lib: "filter (\<lambda>l. title l = name) (sites w (web_url (web s))) = [lib]"
    and le: "length (filter (\<lambda>f. folder_name f = fname) (root_folders lib)) \<le> 1"
  shows "(\<exists>f. fst (create_folder s name fname w) = Inr f \<and>
              fst (create_folder s name fname (snd (create_folder s name fname w))) = Inr f) \<and>
         sites (snd (create_folder s name fname (snd (create_folder s name fname w))))
           = sites (snd (create_folder s name fname w))"
proof (cases "filter (\<lambda>f. folder_name f = fname) (root_folders lib)")
  case Nil
  let ?f = "\<lparr>folder_id = next_id w, folder_name = fname, folder_files = []\<rparr>"
  let ?lib = "lib\<lparr>root_folders := root_folders lib @ [?f]\<rparr>"
  from Nil have ne: "length (filter (\<lambda>f. folder_name f = fname) (root_folders lib)) \<noteq> 1"
    by simp
  note first = create_folder_added [OF nf lib ne]
  let ?w = "snd (create_folder s name fname w)"
  have nf': "\<forall>r. faults ?w r = None"
    using nf by (simp add: first)
  have lib': "filter (\<lambda>l. title l = name) (sites ?w (web_url (web s))) = [?lib]"
    using lib by (simp add: first filter_add_folder_to) (simp add: add_folder_to_def)
  have fd': "filter (\<lambda>f. folder_name f = fname) (root_folders ?lib) = [?f]"
    using Nil by simp
  note second = create_folder_found [OF nf' lib' fd']
  show ?thesis
    by (simp add: second) (simp add: first)
next
  case (Cons f fs)
  with le have one: "filter (\<lambda>f. folder_name f = fname) (root_folders lib) = [f]"
    by simp
  note first = create_folder_found [OF nf lib one]
  let ?w = "snd (create_folder s name fname w)"
  have nf': "\<forall>r. faults ?w r = None"
    using nf by (simp add: first)
  have lib': "filter (\<lambda>l. title l = name) (sites ?w (web_url (web s))) = [lib]"
    using lib by (simp add: first)
  note second = create_folder_found [OF nf' lib' one]
  show ?thesis
    by (simp add: second) (simp add: first)
qed

lemma keyed_at_most_one:
  "distinct (map folder_name fds) \<Longrightarrow>
   length (filter (\<lambda>f. folder_name f = fname) fds) \<le> 1"
proof (induction fds)
  case Nil
  then show ?case by simp
next
  case (Cons f fds)
  show ?case
  proof (cases "folder_name f = fname")
    case True
    have fresh: "fname \<notin> folder_name ` set fds"
      using Cons.prems True by auto
    have "folder_name x \<noteq> fname" if "x \<in> set fds" for x
    proof
      assume "folder_name x = fname"
      then have "fname \<in> folder_name ` set fds"
        using that by (metis imageI)
      then show False
        using fresh by simp
    qed
    then have "filter (\<lambda>f. folder_name f = fname) fds = []"
      by (simp add: filter_empty_conv)
    then show ?thesis
      using True by simp
  next
    case False
    then show ?thesis
      using Cons by simp
  qed
qed

lemma create_folder_keeps_keyed:
  assumes nf: "\<forall>r. faults w r = None"
    and lib: "filter (\<lambda>l. title l = name) (sites w (web_url (web s))) = [lib]"
    and keyed: "distinct (map folder_name (root_folders lib))"
  shows "\<exists>lib'. filter (\<lambda>l. title l = name)
                  (sites (snd (create_folder s name fname w)) (web_url (web s))) = [lib'] \<and>
               distinct (map folder_name (root_folders lib'))"
proof (cases "filter (\<lambda>f. folder_name f = fname) (root_folders lib)")
  case Nil
  let ?f = "\<lparr>folder_id = next_id w, folder_name = fname, folder_files = []\<rparr>"
  from Nil have ne: "length (filter (\<lambda>f. folder_name f = fname) (root_folders lib)) \<noteq> 1"
    by simp
  have new: "fname \<notin> folder_name ` set (root_folders lib)"
    using Nil by (auto simp: filter_empty_conv)
  have "filter (\<lambda>l. title l = name) (sites (snd (create_folder s name fname w)) (web_url (web s)))
          = [lib\<lparr>root_folders := root_folders lib @ [?f]\<rparr>]"
    using lib by (simp add: create_folder_added [OF nf lib ne] filter_add_folder_to)
                 (simp add: add_folder_to_def)
  moreover have "distinct (map folder_name (root_folders (lib\<lparr>root_folders := root_folders lib @ [?f]\<rparr>)))"
    using keyed new by simp
  ultimately show ?thesis
    by blast
next
  case (Cons f fs)
  with keyed_at_most_one [OF keyed, of fname]
  have one: "filter (\<lambda>f. folder_name f = fname) (root_folders lib) = [f]"
    by simp
  show ?thesis
    using lib keyed by (simp add: create_folder_found [OF nf lib one])
qed

text \<open>
  C4. The root of a library is keyed by folder name: no two of its folders have the
  same name, and \<open>create_folder\<close> keeps it so (\<open>create_folder_keeps_keyed\<close>). When no
  round trip raises and the library title resolves to exactly one library, a second
  \<open>create_folder\<close> with the same arguments returns the folder the first one returned
  and leaves the libraries of every site as the first call left them: it creates
  nothing.
\<close>

theorem create_folder_idempotent:
  assumes nf: "\<forall>r. faults w r = None"
    and lib: "filter (\<lambda>l. title l = name) (sites w (web_url (web s))) = [lib]"
    and keyed: "distinct (map folder_name (root_folders lib))"
  shows "(\<exists>f. fst (create_folder s name fname w) = Inr f \<and>
              fst (create_folder s name fname (snd (create_folder s name fname w))) = Inr f) \<and>
         sites (snd (create_folder s name fname (snd (create_folder s name fname w))))
           = sites (snd (create_folder s name fname w))"
  by (rule create_folder_twice_at_most_one [OF nf lib keyed_at_most_one [OF keyed]])

theorem create_folder_idempotent_witness:
  "(\<forall>r. faults demo_world r = None) \<and>
   filter (\<lambda>l. title l = ''Documents'') (sites demo_world (web_url (web demo_api))) = [documents] \<and>
   distinct (map folder_name (root_folders documents)) \<and>
   (\<exists>f. fst (create_folder demo_api ''Documents'' ''drafts'' demo_world) = Inr f \<and>
        fst (create_folder demo_api ''Documents'' ''drafts''
               (snd (create_folder demo_api ''Documents'' ''drafts'' demo_world))) = Inr f) \<and>
   sites (snd (create_folder demo_api ''Documents'' ''drafts''
                 (snd (create_folder demo_api ''Documents'' ''drafts'' demo_world))))
     = sites (snd (create_folder demo_api ''Documents'' ''drafts'' demo_world)) \<and>
   (\<exists>f. fst (create_folder demo_api ''Documents'' ''reports'' demo_world) = Inr f \<and>
        fst (create_folder demo_api ''Documents'' ''reports''
               (snd (create_folder demo_api ''Documents'' ''reports'' demo_world))) = Inr f)"
proof -
  have nf: "\<forall>r. faults demo_world r = None"
    by (simp add: demo_world_def no_faults_def)
  have d: "filter (\<lambda>l. title l = ''Documents'') (sites demo_world (web_url (web demo_api))) = [documents]"
    by (simp add: demo_defs)
  have k: "distinct (map folder_name (root_folders documents))"
    by (simp add: demo_defs)
  show ?thesis
    using nf d k create_folder_idempotent [OF nf d k, of "''drafts''"]
          create_folder_idempotent [OF nf d k, of "''reports''"]
    by simp
qed

text \<open>
  C9. When two or more libraries of the site already have the title, neither round
  trip raises and the ids in use are below the next fresh one,
  \<open>create_document_library\<close> returns a library that was not there before, with that
  title, appended to the site's libraries: one more library has the title.
\<close>

theorem create_document_library_ambiguous:
  assumes "2 \<le> length (filter (\<lambda>l. title l = name) (sites w (web_url (web s))))"
    and "faults w (FilterLists (web_url (web s)) (title_filter name)) = None"
    and "faults w (AddList (web_url (web s)) name descr) = None"
    and "\<forall>l \<in> set (sites w (web_url (web s))). list_id l < next_id w"
  shows "\<exists>new. fst (create_document_library s name descr w) = Inr new \<and>
           new \<notin> set (sites w (web_url (web s))) \<and> title new = name \<and>
           sites (snd (create_document_library s name descr w)) (web_url (web s))
             = sites w (web_url (web s)) @ [new] \<and>
           length (filter (\<lambda>l. title l = name)
                     (sites (snd (create_document_library s name descr w)) (web_url (web s))))
             = Suc (length (filter (\<lambda>l. title l = name) (sites w (web_url (web s)))))"
proof -
  let ?new = "\<lparr>list_id = next_id w, title = name, description = descr, root_folders = []\<rparr>"
  have absent: "single (filter (\<lambda>l. title l = name) (sites w (web_url (web s)))) = None"
    using assms(1) by simp
  have run: "create_document_library s name descr w
     = (Inr ?new,
        w\<lparr>requests := requests w @ [FilterLists (web_url (web s)) (title_filter name),
                                     AddList (web_url (web s)) name descr],
           sites := (sites w)(web_url (web s) := sites w (web_url (web s)) @ [?new]),
           next_id := Suc (next_id w)\<rparr>)"
    using assms(2,3)
    by (simp add: create_document_library_def lookup_result absent execute_query_def Let_def)
  have fresh: "?new \<notin> set (sites w (web_url (web s)))"
    using assms(4) by auto
  show ?thesis
    using fresh by (simp add: run)
qed

theorem create_document_library_ambiguous_witness:
  "2 \<le> length (filter (\<lambda>l. title l = ''Archive'') (sites demo_world (web_url (web demo_api)))) \<and>
   (\<exists>new. fst (create_document_library demo_api ''Archive'' [] demo_world) = Inr new \<and>
           new \<notin> set (sites demo_world (web_url (web demo_api))) \<and> title new = ''Archive'' \<and>
           sites (snd (create_document_library demo_api ''Archive'' [] demo_world)) (web_url (web demo_api))
             = sites demo_world (web_url (web demo_api)) @ [new] \<and>
           length (filter (\<lambda>l. title l = ''Archive'')
                     (sites (snd (create_document_library demo_api ''Archive'' [] demo_world)) (web_url (web demo_api))))
             = Suc (length (filter (\<lambda>l. title l = ''Archive'') (sites demo_world (web_url (web demo_api))))))"
proof -
  have two: "2 \<le> length (filter (\<lambda>l. title l = ''Archive'') (sites demo_world (web_url (web demo_api))))"
    by (simp add: demo_defs)
  have nf1: "faults demo_world (FilterLists (web_url (web demo_api)) (title_filter ''Archive'')) = None"
    by (simp add: demo_world_def no_faults_def)
  have nf2: "faults demo_world (AddList (web_url (web demo_api)) ''Archive'' []) = None"
    by (simp add: demo_world_def no_faults_def)
  have ids: "\<forall>l \<in> set (sites demo_world (web_url (web demo_api))). list_id l < next_id demo_world"
    by (simp add: demo_defs)
  show ?thesis
    using two create_document_library_ambiguous [OF two nf1 nf2 ids] by simp
qed

section \<open>The path of a file URL\<close>

lemma split_go_nonempty: "split_go sep cur s \<noteq> []"
  by (induction sep cur s rule: split_go.induct) auto

lemma split_go_no_occurrence: "\<not> sublist sep s \<Longrightarrow> split_go sep cur s = [cur @ s]"
proof (induction s arbitrary: cur)
  case Nil
  then show ?case by simp
next
  case (Cons c cs)
  have "\<not> prefix sep (c # cs)"
    using Cons.prems by auto
  moreover have "\<not> sublist sep cs"
    using Cons.prems by (auto simp: sublist_Cons_right)
  ultimately show ?case
    using Cons.IH [of "cur @ [c]"] by simp
qed

lemma split_go_at_separator:
  "sep \<noteq> [] \<Longrightarrow> split_go sep cur (sep @ rest) = cur # split_go sep [] rest"
  by (cases sep) auto

lemma last_split_go_suffix: "suffix (last (split_go sep cur s)) (cur @ s)"
proof (induction sep cur s rule: split_go.induct)
  case (1 sep cur)
  then show ?case by simp
next
  case (2 sep cur c cs)
  show ?case
  proof (cases "sep \<noteq> [] \<and> prefix sep (c # cs)")
    case True
    then have "suffix (last (split_go sep [] (drop (length sep) (c # cs)))) (drop (length sep) (c # cs))"
      using 2(1) by simp
    then have "suffix (last (split_go sep [] (drop (length sep) (c # cs)))) (cur @ c # cs)"
      by (meson suffix_drop suffix_order.trans suffix_appendI)
    then show ?thesis
      using True by (simp add: split_go_nonempty)
  next
    case False
    then show ?thesis
      using 2(2) by auto
  qed
qed

lemma get_file_empty_server_url:
  "server_url s = [] \<Longrightarrow> get_file s file_url w = (Inl (ValueError ''empty separator''), w)"
  by (simp add: get_file_def py_split_def)

lemma split_go_cur:
  "split_go sep cur s = (cur @ hd (split_go sep [] s)) # tl (split_go sep [] s)"
proof (induction s arbitrary: cur)
  case Nil
  then show ?case by simp
next
  case (Cons c cs)
  show ?case
  proof (cases "sep \<noteq> [] \<and> prefix sep (c # cs)")
    case True
    then show ?thesis by simp
  next
    case False
    then show ?thesis
      using Cons [of "cur @ [c]"] Cons [of "[c]"] by simp
  qed
qed

lemma split_go_step:
  "\<not> (sep \<noteq> [] \<and> prefix sep (c # cs)) \<Longrightarrow>
   split_go sep [] (c # cs) = (c # hd (split_go sep [] cs)) # tl (split_go sep [] cs)"
  using split_go_cur [of sep "[c]" cs] by simp

lemma join_Cons: "ps \<noteq> [] \<Longrightarrow> join sep (p # ps) = p @ sep @ join sep ps"
  by (cases ps) auto

lemma join_hd_tl:
  "ps \<noteq> [] \<Longrightarrow> join sep ps = (if tl ps = [] then hd ps else hd ps @ sep @ join sep (tl ps))"
  by (cases ps) (auto simp: join_Cons)

lemma split_go_is_split:
  assumes sep: "sep \<noteq> []"
  shows "split_of sep s (split_go sep [] s)"
proof (induction s rule: length_induct)
  case (1 s)
  show ?case
  proof (cases s)
    case Nil
    then show ?thesis using sep by (simp add: split_of_def)
  next
    case (Cons c cs)
    show ?thesis
    proof (cases "prefix sep (c # cs)")
      case True
      let ?r = "drop (length sep) (c # cs)"
      have s: "c # cs = sep @ ?r"
        using True by (metis append_take_drop_id prefix_def append_eq_conv_conj)
      have "length ?r < length s"
        using Cons sep by simp
      then have ih: "split_of sep ?r (split_go sep [] ?r)"
        using 1 by blast
      have ne: "split_go sep [] ?r \<noteq> []"
        using ih by (simp add: split_of_def)
      have run: "split_go sep [] s = [] # split_go sep [] ?r"
        using True sep Cons by simp
      have nb: "\<not> sublist sep (butlast sep)"
        using sep by (metis sublist_length_le length_butlast diff_less length_greater_0_conv
                             less_numeral_extra(1) not_le)
      have ss: "join sep ([] # split_go sep [] ?r) = s"
        using ih ne s Cons by (simp add: split_of_def join_Cons)
      show ?thesis
        unfolding run using ih ne nb ss by (auto simp: split_of_def)
    next
      case False
      have ih: "split_of sep cs (split_go sep [] cs)"
        using 1 Cons by simp
      let ?h = "hd (split_go sep [] cs)" and ?t = "tl (split_go sep [] cs)"
      have ne: "split_go sep [] cs \<noteq> []"
        using ih by (simp add: split_of_def)
      have run: "split_go sep [] s = (c # ?h) # ?t"
        using False Cons split_go_step [of sep c cs] by simp
      have cs: "cs = (if ?t = [] then ?h else ?h @ sep @ join sep ?t)"
        using ih ne by (metis split_of_def join_hd_tl)
      have j: "join sep ((c # ?h) # ?t) = s"
        using cs Cons by (cases ?t) (auto simp: join_Cons)
      show ?thesis
      proof (cases "?t = []")
        case True
        then have all: "split_go sep [] cs = [?h]"
          using ne by (metis list.collapse)
        have "last (split_go sep [] cs) = ?h"
          using all by (metis last.simps)
        then have "\<not> sublist sep ?h"
          using ih by (simp add: split_of_def)
        moreover have "?h = cs"
          using cs True by simp
        ultimately have "\<not> sublist sep (c # ?h)"
          using False by (auto simp: sublist_Cons_right)
        then show ?thesis
          using j True by (simp add: split_of_def run)
      next
        case nt: False
        have hin: "?h \<in> set (butlast (split_go sep [] cs))"
          using ne nt by (metis butlast.simps(2) list.collapse list.set_intros(1))
        then have h: "\<not> sublist sep (butlast (?h @ sep))"
          using ih by (simp add: split_of_def)
        have pre: "prefix (butlast (?h @ sep)) cs"
          using cs nt by (metis prefixeq_butlast prefix_order.trans prefixI append.assoc)
        have "\<not> prefix sep (c # butlast (?h @ sep))"
          using pre False sep by (metis Cons_prefix_Cons prefix_order.trans)
        then have first: "\<not> sublist sep (butlast ((c # ?h) @ sep))"
          using h sep by (simp add: sublist_Cons_right butlast_append)
        have rest: "\<forall>q \<in> set (butlast ?t). \<not> sublist sep (butlast (q @ sep))"
          using ih ne nt by (metis split_of_def butlast.simps(2) list.collapse list.set_intros(2))
        have lst: "\<not> sublist sep (last ?t)"
          using ih ne nt by (metis split_of_def last_tl)
        show ?thesis
          using j first rest lst nt by (auto simp: split_of_def run)
      qed
    qed
  qed
qed

lemma split_of_single: "split_of sep s [p] \<longleftrightarrow> s = p \<and> \<not> sublist sep p"
  by (auto simp: split_of_def)

lemma split_of_Cons:
  "ps \<noteq> [] \<Longrightarrow>
   split_of sep s (p # ps) \<longleftrightarrow>
     s = p @ sep @ join sep ps \<and> \<not> sublist sep (butlast (p @ sep)) \<and> split_of sep (join sep ps) ps"
  by (auto simp: split_of_def join_Cons)

lemma earlier_occurrence:
  assumes eq: "p @ sep @ r1 = q @ sep @ r2" and lt: "length p < length q" and sep: "sep \<noteq> []"
  shows "sublist sep (butlast (q @ sep))"
proof -
  define t where "t = drop (length p) q"
  have "take (length p) (p @ sep @ r1) = take (length p) (q @ sep @ r2)"
    using eq by (rule arg_cong)
  then have "p = take (length p) q"
    using lt by simp
  then have q: "q = p @ t"
    unfolding t_def by (metis append_take_drop_id)
  have t: "t \<noteq> []"
    using lt by (simp add: t_def)
  have rest: "sep @ r1 = t @ sep @ r2"
    using eq unfolding q by simp
  have a: "prefix sep (t @ sep @ r2)"
    unfolding rest [symmetric] by simp
  have "prefix (butlast (t @ sep)) (t @ sep)"
    by (rule prefixeq_butlast)
  moreover have "prefix (t @ sep) (t @ sep @ r2)"
    by simp
  ultimately have b: "prefix (butlast (t @ sep)) (t @ sep @ r2)"
    by (rule prefix_order.trans)
  have len: "length sep \<le> length (butlast (t @ sep))"
    using t by (cases t) auto
  have "prefix sep (butlast (t @ sep))"
    by (rule prefix_length_prefix [OF a b len])
  then obtain r where "butlast (t @ sep) = sep @ r"
    by (auto simp: prefix_def)
  then have "sublist sep (p @ butlast (t @ sep))"
    by simp
  moreover have "butlast (q @ sep) = p @ butlast (t @ sep)"
    using q sep by (simp add: butlast_append)
  ultimately show ?thesis
    by simp
qed

lemma first_piece_unique:
  assumes eq: "p @ sep @ r1 = q @ sep @ r2" and sep: "sep \<noteq> []"
    and p: "\<not> sublist sep (butlast (p @ sep))" and q: "\<not> sublist sep (butlast (q @ sep))"
  shows "p = q"
proof -
  have "\<not> length p < length q"
    using earlier_occurrence [OF eq _ sep] q by blast
  moreover have "\<not> length q < length p"
    using earlier_occurrence [OF eq [symmetric] _ sep] p by blast
  ultimately have "length p = length q"
    by simp
  then show ?thesis
    using eq by simp
qed

lemma split_of_unique:
  assumes sep: "sep \<noteq> []"
  shows "split_of sep s ps \<Longrightarrow> split_of sep s qs \<Longrightarrow> ps = qs"
proof (induction ps arbitrary: qs s)
  case Nil
  then show ?case by (simp add: split_of_def)
next
  case (Cons p ps)
  from Cons.prems(2) obtain q qs' where qs: "qs = q # qs'"
    by (cases qs) (auto simp: split_of_def)
  show ?case
  proof (cases "ps = []")
    case True
    then have s: "s = p" "\<not> sublist sep p"
      using Cons.prems(1) by (simp_all add: split_of_single)
    show ?thesis
    proof (cases "qs' = []")
      case True
      then show ?thesis
        using Cons.prems(2) qs s \<open>ps = []\<close> by (simp add: split_of_single)
    next
      case False
      then have "s = q @ sep @ join sep qs'"
        using Cons.prems(2) qs by (simp add: split_of_Cons)
      then have "sublist sep s"
        by simp
      then show ?thesis
        using s by simp
    qed
  next
    case False
    then have p: "s = p @ sep @ join sep ps" "\<not> sublist sep (butlast (p @ sep))"
      "split_of sep (join sep ps) ps"
      using Cons.prems(1) by (simp_all add: split_of_Cons)
    show ?thesis
    proof (cases "qs' = []")
      case True
      then have "s = q" "\<not> sublist sep q"
        using Cons.prems(2) qs by (simp_all add: split_of_single)
      moreover have "sublist sep s"
        using p(1) by simp
      ultimately show ?thesis
        by simp
    next
      case nq: False
      then have q: "s = q @ sep @ join sep qs'" "\<not> sublist sep (butlast (q @ sep))"
        "split_of sep (join sep qs') qs'"
        using Cons.prems(2) qs by (simp_all add: split_of_Cons)
      have pq: "p = q"
        using first_piece_unique [of p sep "join sep ps" q "join sep qs'"] p q sep by simp
      then have "join sep ps = join sep qs'"
        using p(1) q(1) by simp
      then have "ps = qs'"
        using Cons.IH [of "join sep ps" qs'] p(3) q(3) by simp
      then show ?thesis
        using pq qs by simp
    qed
  qed
qed

text \<open>
  C6, as amended. With a non-empty \<open>server_url\<close>, \<open>get_file\<close> makes one round trip,
  for the path that is the last piece of \<^verbatim>\<open>file_url.split(server_url)\<close>. The pieces are
  the one list that \<open>split_of\<close> admits: joined by \<open>server_url\<close> they give \<open>file_url\<close>,
  each piece but the last ends at the first \<open>server_url\<close> after its start, and the last
  piece holds no \<open>server_url\<close>. So the path is a suffix of \<open>file_url\<close>; it is
  \<open>file_url\<close> itself when \<open>server_url\<close> does not occur in it, and \<open>file_url\<close> without
  its leading \<open>server_url\<close> when \<open>file_url\<close> starts with \<open>server_url\<close> and \<open>server_url\<close>
  does not occur again in the rest.
\<close>

theorem get_file_path:
  assumes "server_url s \<noteq> []"
  shows "\<exists>pieces.
           split_of (server_url s) file_url pieces \<and>
           (\<forall>qs. split_of (server_url s) file_url qs \<longrightarrow> qs = pieces) \<and>
           get_file s file_url w
             = (case faults w (GetFileByPath (web_url (web s)) (last pieces)) of
                  None \<Rightarrow> Inr (FileAtPath (last pieces)) | Some e \<Rightarrow> Inl e,
                w\<lparr>requests := requests w @ [GetFileByPath (web_url (web s)) (last pieces)]\<rparr>) \<and>
           suffix (last pieces) file_url \<and>
           (\<not> sublist (server_url s) file_url \<longrightarrow> last pieces = file_url) \<and>
           (\<forall>rest. file_url = server_url s @ rest \<and> \<not> sublist (server_url s) rest
                   \<longrightarrow> last pieces = rest)"
proof -
  let ?ps = "split_go (server_url s) [] file_url"
  have sp: "split_of (server_url s) file_url ?ps"
    using assms by (rule split_go_is_split)
  have uniq: "\<forall>qs. split_of (server_url s) file_url qs \<longrightarrow> qs = ?ps"
    using split_of_unique [OF assms _ sp] by blast
  have run: "get_file s file_url w
           = (case faults w (GetFileByPath (web_url (web s)) (last ?ps)) of
                None \<Rightarrow> Inr (FileAtPath (last ?ps)) | Some e \<Rightarrow> Inl e,
              w\<lparr>requests := requests w @ [GetFileByPath (web_url (web s)) (last ?ps)]\<rparr>)"
    using assms
    by (simp add: get_file_def py_split_def execute_query_def Let_def split: option.splits)
  have suf: "suffix (last ?ps) file_url"
    using last_split_go_suffix [of "server_url s" "[]" file_url] by simp
  have none: "\<not> sublist (server_url s) file_url \<longrightarrow> last ?ps = file_url"
    by (simp add: split_go_no_occurrence)
  have lead: "\<forall>rest. file_url = server_url s @ rest \<and> \<not> sublist (server_url s) rest
                \<longrightarrow> last ?ps = rest"
    using assms by (auto simp: split_go_at_separator split_go_no_occurrence)
  show ?thesis
    using sp uniq run suf none lead by blast
qed

theorem get_file_path_witness:
  "server_url demo_api \<noteq> [] \<and>
   fst (get_file demo_api ''https://contoso.example/sites/Engineering/a.txt'' empty_world)
     = Inr (FileAtPath ''/sites/Engineering/a.txt'') \<and>
   requests (snd (get_file demo_api ''https://contoso.example/sites/Engineering/a.txt'' empty_world))
     = [GetFileByPath demo_url ''/sites/Engineering/a.txt'']"
proof -
  have ne: "server_url demo_api \<noteq> []"
    by (simp add: demo_api_def)
  have url: "''https://contoso.example/sites/Engineering/a.txt''
               = server_url demo_api @ ''/sites/Engineering/a.txt''"
    by (simp add: demo_api_def)
  have once: "\<not> sublist (server_url demo_api) ''/sites/Engineering/a.txt''"
    by (simp add: demo_api_def sublist_Cons_right)
  have nf: "faults empty_world r = None" for r
    by (simp add: empty_world_def no_faults_def)
  have rq: "requests empty_world = []" "web_url (web demo_api) = demo_url"
    by (simp_all add: empty_world_def demo_api_def)
  from get_file_path [OF ne, of "''https://contoso.example/sites/Engineering/a.txt''" empty_world]
  obtain pieces where
    run: "get_file demo_api ''https://contoso.example/sites/Engineering/a.txt'' empty_world
           = (case faults empty_world (GetFileByPath (web_url (web demo_api)) (last pieces)) of
                None \<Rightarrow> Inr (FileAtPath (last pieces)) | Some e \<Rightarrow> Inl e,
              empty_world\<lparr>requests := requests empty_world
                                        @ [GetFileByPath (web_url (web demo_api)) (last pieces)]\<rparr>)"
    and lead: "\<forall>rest. ''https://contoso.example/sites/Engineering/a.txt'' = server_url demo_api @ rest
                 \<and> \<not> sublist (server_url demo_api) rest \<longrightarrow> last pieces = rest"
    by blast
  from lead url once have p: "last pieces = ''/sites/Engineering/a.txt''"
    by blast
  show ?thesis
    using ne by (simp add: run p nf rq)
qed

text \<open>
  C6 as stated fails: the URL starts with \<open>server_url\<close> and names it once more in its
  query. The path fetched is what follows the second occurrence, not the URL without
  its leading \<open>server_url\<close>.
\<close>

theorem get_file_prefix_counterexample:
  "prefix (server_url demo_api) ''https://contoso.example/a.aspx?Source=https://contoso.example/b'' \<and>
   drop (length (server_url demo_api)) ''https://contoso.example/a.aspx?Source=https://contoso.example/b''
     = ''/a.aspx?Source=https://contoso.example/b'' \<and>
   get_file demo_api ''https://contoso.example/a.aspx?Source=https://contoso.example/b'' empty_world
     = (Inr (FileAtPath ''/b''), empty_world\<lparr>requests := [GetFileByPath demo_url ''/b'']\<rparr>)"
  by (simp add: get_file_def py_split_def execute_query_def demo_api_def empty_world_def no_faults_def Let_def)

section \<open>Sessions from URLs\<close>

lemma connect_fields:
  "connect st srv i p w = (Inr api, w1) \<Longrightarrow> site api = st \<and> server_url api = srv"
  by (auto simp: connect_def Let_def split: prod.splits sum.splits)

lemma init_fields:
  "SharepointClientAccess_init st srv [] i p w = (Inr api, w1) \<Longrightarrow>
   site api = st \<and> server_url api = srv"
  by (auto simp: SharepointClientAccess_init_def dest: connect_fields split: if_splits)

lemmas run_defs = SharepointClientAccess_init_def connect_def get_sharepoint_ctx_def
  execute_query_def standard_session_def Let_def log_to_def

lemmas url_defs = demo_settings_def demo_match_def engineering_gone_def empty_world_def
  no_faults_def demo_url_def

text \<open>
  C7, as amended. When the URL matches and the session for the two groups is built,
  \<open>from_url\<close> returns that session, whose site and server URL are the groups. When the
  URL matches and building that session raises, a \<open>SharepointError\<close> is logged and the
  session of the configured default pair is built instead, and any other exception
  leaves \<open>from_url\<close>. When the URL does not match, the session of the default pair is
  built. An exception of the matching that is not a \<open>SharepointError\<close> leaves
  \<open>from_url\<close>. A default session that is built has the configured site and server URL;
  an exception of building it leaves \<open>from_url\<close>, being the result of the last statement.
\<close>

theorem from_url_routes:
  "(re_match url = Inr (Some (site_name, srv)) \<and>
    SharepointClientAccess_init site_name srv []
      (SHAREPOINT_CLIENT_ID cfg) (SHAREPOINT_CLIENT_SECRET cfg) w = (Inr api, w1) \<longrightarrow>
      from_url cfg re_match url w = (Inr api, w1) \<and> site api = site_name \<and> server_url api = srv) \<and>
   (re_match url = Inr (Some (site_name, srv)) \<and>
    SharepointClientAccess_init site_name srv []
      (SHAREPOINT_CLIENT_ID cfg) (SHAREPOINT_CLIENT_SECRET cfg) w = (Inl e, w1) \<longrightarrow>
      from_url cfg re_match url w =
        (if is_SharepointError e
         then standard_session cfg (log_to (LogDebug (standard_site_message e)) w1)
         else (Inl e, w1))) \<and>
   (re_match url = Inr None \<longrightarrow> from_url cfg re_match url w = standard_session cfg w) \<and>
   (re_match url = Inl e \<and> \<not> is_SharepointError e \<longrightarrow> from_url cfg re_match url w = (Inl e, w)) \<and>
   (standard_session cfg w = (Inr api, w1) \<longrightarrow>
      site api = SHAREPOINT_SITE cfg \<and> server_url api = SHAREPOINT_SERVER_URL cfg)"
proof -
  have a: "re_match url = Inr (Some (site_name, srv)) \<and>
    SharepointClientAccess_init site_name srv []
      (SHAREPOINT_CLIENT_ID cfg) (SHAREPOINT_CLIENT_SECRET cfg) w = (Inr api, w1) \<longrightarrow>
      from_url cfg re_match url w = (Inr api, w1) \<and> site api = site_name \<and> server_url api = srv"
    by (auto simp: from_url_def dest: init_fields)
  have b: "re_match url = Inr (Some (site_name, srv)) \<and>
    SharepointClientAccess_init site_name srv []
      (SHAREPOINT_CLIENT_ID cfg) (SHAREPOINT_CLIENT_SECRET cfg) w = (Inl e, w1) \<longrightarrow>
      from_url cfg re_match url w =
        (if is_SharepointError e
         then standard_session cfg (log_to (LogDebug (standard_site_message e)) w1)
         else (Inl e, w1))"
    by (simp add: from_url_def)
  have c: "re_match url = Inr None \<longrightarrow> from_url cfg re_match url w = standard_session cfg w"
    by (simp add: from_url_def)
  have d: "re_match url = Inl e \<and> \<not> is_SharepointError e \<longrightarrow> from_url cfg re_match url w = (Inl e, w)"
    by (simp add: from_url_def)
  have f: "standard_session cfg w = (Inr api, w1) \<longrightarrow>
      site api = SHAREPOINT_SITE cfg \<and> server_url api = SHAREPOINT_SERVER_URL cfg"
    by (auto simp: standard_session_def dest: init_fields)
  show ?thesis
    using a b c d f by blast
qed

theorem from_url_routes_witness:
  "from_url demo_settings demo_match
     ''https://contoso.example/sites/Engineering/Shared Documents/a.txt'' empty_world
     = (Inr demo_api, empty_world\<lparr>requests := [GetWeb demo_url, GetSite demo_url]\<rparr>) \<and>
   site demo_api = ''Engineering'' \<and> server_url demo_api = ''https://contoso.example'' \<and>
   from_url demo_settings demo_match ''mailto:someone@contoso.example'' empty_world
     = standard_session demo_settings empty_world"
proof -
  have m: "demo_match ''https://contoso.example/sites/Engineering/Shared Documents/a.txt''
             = Inr (Some (''Engineering'', ''https://contoso.example''))"
    by (simp add: demo_match_def)
  have n: "demo_match ''mailto:someone@contoso.example'' = Inr None"
    by (simp add: demo_match_def)
  have i: "SharepointClientAccess_init ''Engineering'' ''https://contoso.example'' []
             (SHAREPOINT_CLIENT_ID demo_settings) (SHAREPOINT_CLIENT_SECRET demo_settings) empty_world
             = (Inr demo_api, empty_world\<lparr>requests := [GetWeb demo_url, GetSite demo_url]\<rparr>)"
    by (simp add: run_defs url_defs demo_api_def)
  show ?thesis
    using m i n
      from_url_routes [where re_match = demo_match and cfg = demo_settings and w = empty_world
        and url = "''https://contoso.example/sites/Engineering/Shared Documents/a.txt''"
        and site_name = "''Engineering''" and srv = "''https://contoso.example''"
        and api = demo_api
        and ?w1.0 = "empty_world\<lparr>requests := [GetWeb demo_url, GetSite demo_url]\<rparr>"]
      from_url_routes [where re_match = demo_match and cfg = demo_settings and w = empty_world
        and url = "''mailto:someone@contoso.example''"]
    by blast
qed

text \<open>
  C7 as stated fails: the URL matches with the groups Engineering and
  \<^verbatim>\<open>https://contoso.example\<close>, the fetch of that site's web root raises a
  \<open>SharepointError\<close>, and \<open>from_url\<close> returns a session of the default site Standard.
\<close>

theorem from_url_fallback_counterexample:
  "demo_match ''https://contoso.example/sites/Engineering/Shared Documents/a.txt''
     = Inr (Some (''Engineering'', ''https://contoso.example'')) \<and>
   fst (from_url demo_settings demo_match
          ''https://contoso.example/sites/Engineering/Shared Documents/a.txt''
          (empty_world\<lparr>faults := engineering_gone\<rparr>))
     = Inr \<lparr>site = ''Standard'', server_url = ''https://contoso.example'',
            complete_url = ''https://contoso.example/sites/Standard'',
            ctx = \<lparr>ctx_url = ''https://contoso.example/sites/Standard'',
                   ctx_cred = (JStr ''id'', JStr ''secret'')\<rparr>,
            web = Web ''https://contoso.example/sites/Standard''\<rparr>"
  by (simp add: from_url_def run_defs url_defs)

end
